theory Spec2Isabelle
  imports Main "HOL-Library.Word"
begin

unbundle bit_operations_syntax

section \<open>Common types\<close>

type_synonym u32 = "32 word"

text \<open>
  The kernel error numbers the two drivers return. A function returning \<open>int\<close> with
  \<open>0\<close> for success and \<open>-E...\<close> for failure is modelled with the result type
  \<open>errno + 'a\<close>: \<open>Inl e\<close> is the return of \<open>-e\<close>.
\<close>

datatype errno = EINVAL | ETIMEDOUT

section \<open>ath79-mii-ctrl.c: the MII mode controller\<close>

subsection \<open>Constants and data\<close>

definition MII_CTRL_SELECT_SHIFT :: nat where "MII_CTRL_SELECT_SHIFT = 0"
definition MII_CTRL_SELECT_MASK :: u32 where "MII_CTRL_SELECT_MASK = 0x3"
definition MII_CTRL_SELECT_PORT1_MASK :: u32 where "MII_CTRL_SELECT_PORT1_MASK = 0x1"

definition MII_CTRL_SELECT_GMII :: u32 where "MII_CTRL_SELECT_GMII = 0"
definition MII_CTRL_SELECT_MII :: u32 where "MII_CTRL_SELECT_MII = 1"
definition MII_CTRL_SELECT_RGMII :: u32 where "MII_CTRL_SELECT_RGMII = 2"
definition MII_CTRL_SELECT_RMII :: u32 where "MII_CTRL_SELECT_RMII = 3"

definition MII_CTRL_SPEED_SHIFT :: nat where "MII_CTRL_SPEED_SHIFT = 4"
definition MII_CTRL_SPEED_MASK :: u32 where "MII_CTRL_SPEED_MASK = 0x3"

definition MII_CTRL_SPEED_10 :: u32 where "MII_CTRL_SPEED_10 = 0"
definition MII_CTRL_SPEED_100 :: u32 where "MII_CTRL_SPEED_100 = 1"
definition MII_CTRL_SPEED_1000 :: u32 where "MII_CTRL_SPEED_1000 = 2"

text \<open>
  Modelled from the spec: the enum \<open>phy_interface_t\<close> is declared in
  \<open>linux/phy.h\<close>, which is not part of the sources. The four modes the controller
  names are constructors of their own; every other enumerator of the header is
  \<open>PHY_INTERFACE_MODE_OTHER\<close> with its number, and reaches the \<open>default\<close> branch of
  both switches.
\<close>

datatype phy_interface_t =
    PHY_INTERFACE_MODE_GMII
  | PHY_INTERFACE_MODE_MII
  | PHY_INTERFACE_MODE_RGMII
  | PHY_INTERFACE_MODE_RMII
  | PHY_INTERFACE_MODE_OTHER nat

text \<open>
  \<open>struct mii_ctrl\<close>. The field \<open>base\<close> is the address of the register window; the
  window itself is the state the operations read and write (\<open>mii_regs\<close> below).
\<close>

record mii_ctrl =
  num_port :: u32
  has_gbit :: bool

text \<open>\<open>struct mii_ctrl_handle\<close> (the \<open>dev\<close> pointer only serves reference counting).\<close>

record mii_ctrl_handle =
  ctrl :: mii_ctrl
  port :: u32

text \<open>
  The register window: the 32-bit word at each byte offset from \<open>base\<close>. The offset
  \<open>hdl->port * 4\<close> is computed in \<open>unsigned\<close> arithmetic.
\<close>

type_synonym mii_regs = "u32 \<Rightarrow> u32"

definition readl :: "mii_regs \<Rightarrow> u32 \<Rightarrow> u32" where
  "readl regs off = regs off"

definition writel :: "u32 \<Rightarrow> u32 \<Rightarrow> mii_regs \<Rightarrow> mii_regs" where
  "writel v off regs = regs(off := v)"

text \<open>The two fields of a port's register word, as both operations extract them.\<close>

definition select_field :: "u32 \<Rightarrow> u32" where
  "select_field val = drop_bit MII_CTRL_SELECT_SHIFT val AND MII_CTRL_SELECT_MASK"

definition speed_field :: "u32 \<Rightarrow> u32" where
  "speed_field val = drop_bit MII_CTRL_SPEED_SHIFT val AND MII_CTRL_SPEED_MASK"

subsection \<open>mii_ctrl_set_interface\<close>

text \<open>
  The first switch of \<open>mii_ctrl_set_interface\<close>. The local \<open>port\<close> it compares is
  declared (\<open>u32 val, select, speed, port;\<close>) and never assigned: the value it holds
  is whatever the stack holds, so it is a parameter of the model, \<open>port_local\<close>, and
  not \<open>hdl->port\<close>.
\<close>

definition set_interface_select :: "u32 \<Rightarrow> phy_interface_t \<Rightarrow> errno + u32" where
  "set_interface_select port_local iface =
     (case iface of
        PHY_INTERFACE_MODE_GMII \<Rightarrow>
          if port_local > 0 then Inl EINVAL else Inr MII_CTRL_SELECT_GMII
      | PHY_INTERFACE_MODE_MII \<Rightarrow>
          if port_local > 0 then Inl EINVAL else Inr MII_CTRL_SELECT_MII
      | PHY_INTERFACE_MODE_RGMII \<Rightarrow> Inr MII_CTRL_SELECT_RGMII
      | PHY_INTERFACE_MODE_RMII \<Rightarrow> Inr MII_CTRL_SELECT_RMII
      | PHY_INTERFACE_MODE_OTHER _ \<Rightarrow> Inl EINVAL)"

text \<open>The second switch: the capability check, and the clamp of the speed read back.\<close>

definition set_interface_speed :: "mii_ctrl_handle \<Rightarrow> phy_interface_t \<Rightarrow> u32 \<Rightarrow> errno + u32" where
  "set_interface_speed hdl iface speed =
     (case iface of
        PHY_INTERFACE_MODE_GMII \<Rightarrow>
          if \<not> has_gbit (ctrl hdl) then Inl EINVAL else Inr speed
      | PHY_INTERFACE_MODE_RGMII \<Rightarrow>
          if \<not> has_gbit (ctrl hdl) then Inl EINVAL else Inr speed
      | PHY_INTERFACE_MODE_MII \<Rightarrow>
          Inr (if speed > MII_CTRL_SPEED_100 then MII_CTRL_SPEED_100 else speed)
      | PHY_INTERFACE_MODE_RMII \<Rightarrow>
          Inr (if speed > MII_CTRL_SPEED_100 then MII_CTRL_SPEED_100 else speed)
      | PHY_INTERFACE_MODE_OTHER _ \<Rightarrow> Inl EINVAL)"

definition mii_ctrl_set_interface ::
  "u32 \<Rightarrow> mii_ctrl_handle \<Rightarrow> phy_interface_t \<Rightarrow> mii_regs \<Rightarrow> (errno + unit) \<times> mii_regs" where
  "mii_ctrl_set_interface port_local hdl iface regs =
     (let val = readl regs (port hdl * 4);
          speed = drop_bit MII_CTRL_SPEED_SHIFT val AND MII_CTRL_SPEED_MASK
      in case set_interface_select port_local iface of
           Inl e \<Rightarrow> (Inl e, regs)
         | Inr select0 \<Rightarrow>
             let select = (if port_local = 1 then select0 AND MII_CTRL_SELECT_PORT1_MASK
                           else select0)
             in (case set_interface_speed hdl iface speed of
                   Inl e \<Rightarrow> (Inl e, regs)
                 | Inr speed' \<Rightarrow>
                     let val' = push_bit MII_CTRL_SELECT_SHIFT select OR
                                push_bit MII_CTRL_SPEED_SHIFT speed'
                     in (Inr (), writel val' (port hdl * 4) regs)))"

subsection \<open>mii_ctrl_set_speed\<close>

text \<open>
  The switch on \<open>link_speed\<close>. \<open>case 10\<close> has no \<open>break\<close>: after its assignment
  control falls into \<open>case 100\<close>, whose assignment overwrites the first.
\<close>

definition set_speed_code :: "int \<Rightarrow> u32 \<Rightarrow> errno + u32" where
  "set_speed_code link_speed select =
     (if link_speed = 10 then
        (let speed = MII_CTRL_SPEED_10;
             speed = MII_CTRL_SPEED_100
         in Inr speed)
      else if link_speed = 100 then Inr MII_CTRL_SPEED_100
      else if link_speed = 1000 then
        (if select = MII_CTRL_SELECT_MII \<or> select = MII_CTRL_SELECT_RMII then Inl EINVAL
         else Inr MII_CTRL_SPEED_1000)
      else Inl EINVAL)"

definition mii_ctrl_set_speed ::
  "mii_ctrl_handle \<Rightarrow> int \<Rightarrow> mii_regs \<Rightarrow> (errno + unit) \<times> mii_regs" where
  "mii_ctrl_set_speed hdl link_speed regs =
     (let val = readl regs (port hdl * 4);
          select = drop_bit MII_CTRL_SELECT_SHIFT val AND MII_CTRL_SELECT_MASK
      in case set_speed_code link_speed select of
           Inl e \<Rightarrow> (Inl e, regs)
         | Inr speed \<Rightarrow>
             let val' = push_bit MII_CTRL_SELECT_SHIFT select OR
                        push_bit MII_CTRL_SPEED_SHIFT speed
             in (Inr (), writel val' (port hdl * 4) regs))"

section \<open>ag71xx_mdio.c: the MDIO bus controller\<close>

subsection \<open>Constants and data\<close>

definition AG71XX_MDIO_RETRY :: nat where "AG71XX_MDIO_RETRY = 1000"
definition AG71XX_MDIO_DELAY :: nat where "AG71XX_MDIO_DELAY = 5"

definition AG71XX_REG_MII_CFG :: u32 where "AG71XX_REG_MII_CFG = 0x0020"
definition AG71XX_REG_MII_CMD :: u32 where "AG71XX_REG_MII_CMD = 0x0024"
definition AG71XX_REG_MII_ADDR :: u32 where "AG71XX_REG_MII_ADDR = 0x0028"
definition AG71XX_REG_MII_CTRL :: u32 where "AG71XX_REG_MII_CTRL = 0x002c"
definition AG71XX_REG_MII_STATUS :: u32 where "AG71XX_REG_MII_STATUS = 0x0030"
definition AG71XX_REG_MII_IND :: u32 where "AG71XX_REG_MII_IND = 0x0034"

definition MII_CMD_WRITE :: u32 where "MII_CMD_WRITE = 0x0"
definition MII_CMD_READ :: u32 where "MII_CMD_READ = 0x1"
definition MII_ADDR_SHIFT :: nat where "MII_ADDR_SHIFT = 8"
definition MII_IND_BUSY :: u32 where "MII_IND_BUSY = push_bit 0 1"
definition MII_IND_INVALID :: u32 where "MII_IND_INVALID = push_bit 2 1"
definition MII_CFG_RESET :: u32 where "MII_CFG_RESET = push_bit 31 1"

text \<open>
  Modelled from the spec: \<open>EINVAL\<close> is defined in the kernel's \<open>errno-base.h\<close>, which
  is not part of the sources; it is 22 on every architecture. \<open>ag71xx_mdio_get_divider\<close>
  returns \<open>u32\<close>, so its \<open>return -EINVAL\<close> yields the word \<open>- 22\<close>, that is
  \<open>0xFFFFFFEA\<close>.
\<close>

definition EINVAL_number :: u32 where "EINVAL_number = 22"

text \<open>
  \<open>struct ag71xx_mdio_hw\<close>. The table \<open>div_table\<close> points to is the list of its
  entries; \<open>div_table_size\<close> is the separate \<open>unsigned int\<close> field.
\<close>

record ag71xx_mdio_hw =
  div_table :: "u32 list"
  div_table_size :: u32

text \<open>
  \<open>struct ag71xx_mdio\<close>, without the bus and the register window (the window is
  the state \<open>mdio_dev\<close> below). The field \<open>ref_clk\<close> holds the rate that
  \<open>clk_get_rate(am->ref_clk)\<close> returns, an \<open>unsigned long\<close>: 32 bits on the 32-bit
  MIPS cores of this SoC family.
\<close>

record ag71xx_mdio =
  ref_clk :: u32
  mdio_rate :: u32
  hw :: ag71xx_mdio_hw

text \<open>
  What C leaves undefined and the hardware traps: a read of the divider table at an
  index that is not one of its entries, and a division by a zero table entry.
\<close>

datatype fault = OutOfBoundsRead nat | DivisionByZero

text \<open>
  The register window at \<open>mdio_base\<close>. The configuration registers hold what was last
  written to them. \<open>STATUS\<close> and \<open>IND\<close> are driven by the hardware: \<open>STATUS\<close> reads
  as \<open>mii_status\<close>, and the successive reads of \<open>IND\<close> return the successive values
  of the sequence \<open>ind_seq\<close>, \<open>ind_reads\<close> counting the reads made so far.
  \<open>elapsed_us\<close> adds up the microseconds spent in \<open>udelay\<close>.
\<close>

record mdio_dev =
  mdio_regs :: "u32 \<Rightarrow> u32"
  mii_status :: u32
  ind_seq :: "nat \<Rightarrow> u32"
  ind_reads :: nat
  elapsed_us :: nat

definition raw_readl :: "mdio_dev \<Rightarrow> u32 \<Rightarrow> u32 \<times> mdio_dev" where
  "raw_readl d reg =
     (if reg = AG71XX_REG_MII_IND then
        (ind_seq d (ind_reads d), d\<lparr>ind_reads := Suc (ind_reads d)\<rparr>)
      else if reg = AG71XX_REG_MII_STATUS then (mii_status d, d)
      else (mdio_regs d reg, d))"

definition raw_writel :: "u32 \<Rightarrow> u32 \<Rightarrow> mdio_dev \<Rightarrow> mdio_dev" where
  "raw_writel v reg d = d\<lparr>mdio_regs := (mdio_regs d)(reg := v)\<rparr>"

definition udelay :: "nat \<Rightarrow> mdio_dev \<Rightarrow> mdio_dev" where
  "udelay us d = d\<lparr>elapsed_us := elapsed_us d + us\<rparr>"

text \<open>\<open>ag71xx_mdio_wr\<close>: the write, then the read back that flushes it.\<close>

definition ag71xx_mdio_wr :: "mdio_dev \<Rightarrow> u32 \<Rightarrow> u32 \<Rightarrow> mdio_dev" where
  "ag71xx_mdio_wr d reg v = snd (raw_readl (raw_writel v reg d) reg)"

definition ag71xx_mdio_rr :: "mdio_dev \<Rightarrow> u32 \<Rightarrow> u32 \<times> mdio_dev" where
  "ag71xx_mdio_rr d reg = raw_readl d reg"

subsection \<open>ag71xx_mdio_get_divider and ag71xx_mdio_reset\<close>

text \<open>\<open>am->hw->div_table[i]\<close>: defined only for the indices of the table.\<close>

definition div_table_at :: "ag71xx_mdio_hw \<Rightarrow> nat \<Rightarrow> fault + u32" where
  "div_table_at h i =
     (if i < length (div_table h) then Inr (div_table h ! i) else Inl (OutOfBoundsRead i))"

text \<open>
  The \<open>for\<close> loop of \<open>ag71xx_mdio_get_divider\<close> from the index \<open>i\<close> on, with the
  \<open>return am->hw->div_table[i]\<close> that follows it. The loop condition is
  \<open>i <= am->hw->div_table_size\<close>. The index is an \<open>int\<close> in the source; it is a
  \<open>nat\<close> here, since it starts at 0, grows by one, and the first read past the
  table ends the run.
\<close>

function get_divider_loop :: "ag71xx_mdio \<Rightarrow> u32 \<Rightarrow> nat \<Rightarrow> fault + u32" where
  "get_divider_loop am ref_clock i =
     (if i \<le> unat (div_table_size (hw am)) then
        (case div_table_at (hw am) i of
           Inl f \<Rightarrow> Inl f
         | Inr dv \<Rightarrow>
             if dv = 0 then Inl DivisionByZero
             else if ref_clock div dv \<le> mdio_rate am then Inr dv
             else get_divider_loop am ref_clock (i + 1))
      else div_table_at (hw am) i)"
  by pat_completeness auto
termination
  by (relation "measure (\<lambda>(am, ref_clock, i). Suc (unat (div_table_size (hw am))) - i)") auto

declare get_divider_loop.simps [simp del]

definition ag71xx_mdio_get_divider :: "ag71xx_mdio \<Rightarrow> fault + u32" where
  "ag71xx_mdio_get_divider am =
     (let ref_clock = ref_clk am
      in if ref_clock = 0 then Inr (- EINVAL_number)
         else get_divider_loop am ref_clock 0)"

text \<open>
  \<open>ag71xx_mdio_reset\<close>. Its only \<open>return\<close> is \<open>return 0\<close>; the result is
  \<open>Inl\<close> only where computing the divider is undefined.
\<close>

definition ag71xx_mdio_reset ::
  "ag71xx_mdio \<Rightarrow> mdio_dev \<Rightarrow> fault + ((errno + unit) \<times> mdio_dev)" where
  "ag71xx_mdio_reset am d =
     (case ag71xx_mdio_get_divider am of
        Inl f \<Rightarrow> Inl f
      | Inr dv \<Rightarrow>
          let d1 = ag71xx_mdio_wr d AG71XX_REG_MII_CFG (dv OR MII_CFG_RESET);
              d2 = udelay 100 d1;
              d3 = ag71xx_mdio_wr d2 AG71XX_REG_MII_CFG dv;
              d4 = udelay 100 d3
          in Inr (Inr (), d4))"

subsection \<open>ag71xx_mdio_wait_busy and ag71xx_mdio_read\<close>

text \<open>
  The polling loop of \<open>ag71xx_mdio_wait_busy\<close> from the iteration \<open>i\<close> on. The test
  is \<open>if (!busy)\<close> on the whole word read from \<open>IND\<close>.
\<close>

function wait_busy_loop :: "nat \<Rightarrow> mdio_dev \<Rightarrow> (errno + unit) \<times> mdio_dev" where
  "wait_busy_loop i d =
     (if i < AG71XX_MDIO_RETRY then
        (let r = ag71xx_mdio_rr d AG71XX_REG_MII_IND;
             busy = fst r;
             d1 = snd r
         in if busy = 0 then (Inr (), d1)
            else wait_busy_loop (i + 1) (udelay AG71XX_MDIO_DELAY d1))
      else (Inl ETIMEDOUT, d))"
  by pat_completeness auto
termination
  by (relation "measure (\<lambda>(i, d). AG71XX_MDIO_RETRY - i)") auto

declare wait_busy_loop.simps [simp del]

definition ag71xx_mdio_wait_busy :: "mdio_dev \<Rightarrow> (errno + unit) \<times> mdio_dev" where
  "ag71xx_mdio_wait_busy d = wait_busy_loop 0 d"

text \<open>
  \<open>ag71xx_mdio_read\<close>. The arguments \<open>addr\<close> and \<open>reg\<close> are \<open>int\<close>s in the source
  and are given here by their 32-bit patterns: the masks keep the low byte of each.
\<close>

definition ag71xx_mdio_read :: "mdio_dev \<Rightarrow> u32 \<Rightarrow> u32 \<Rightarrow> (errno + u32) \<times> mdio_dev" where
  "ag71xx_mdio_read d addr reg =
     (case ag71xx_mdio_wait_busy d of
        (Inl err, d1) \<Rightarrow> (Inl err, d1)
      | (Inr _, d1) \<Rightarrow>
          let d2 = ag71xx_mdio_wr d1 AG71XX_REG_MII_CMD MII_CMD_WRITE;
              d3 = ag71xx_mdio_wr d2 AG71XX_REG_MII_ADDR
                     (push_bit MII_ADDR_SHIFT (addr AND 0xff) OR (reg AND 0xff));
              d4 = ag71xx_mdio_wr d3 AG71XX_REG_MII_CMD MII_CMD_READ
          in (case ag71xx_mdio_wait_busy d4 of
                (Inl err, d5) \<Rightarrow> (Inl err, d5)
              | (Inr _, d5) \<Rightarrow>
                  let r = ag71xx_mdio_rr d5 AG71XX_REG_MII_STATUS;
                      val = fst r AND 0xffff;
                      d6 = ag71xx_mdio_wr (snd r) AG71XX_REG_MII_CMD MII_CMD_WRITE
                  in (Inr val, d6)))"

section \<open>Concrete inputs\<close>

text \<open>
  The concrete states the evaluations below run on: a register window holding the same
  word at every offset; a sequence of \<open>IND\<close> values that starts with a given list and
  stays at a given word afterwards; and an MDIO device with all configuration
  registers at zero and no read made yet.
\<close>

definition every_offset :: "u32 \<Rightarrow> mii_regs" where
  "every_offset w = (\<lambda>_. w)"

definition ind_values :: "u32 list \<Rightarrow> u32 \<Rightarrow> nat \<Rightarrow> u32" where
  "ind_values ws w n = (if n < length ws then ws ! n else w)"

definition idle_dev :: "u32 \<Rightarrow> (nat \<Rightarrow> u32) \<Rightarrow> mdio_dev" where
  "idle_dev st ind =
     \<lparr>mdio_regs = every_offset 0, mii_status = st, ind_seq = ind, ind_reads = 0, elapsed_us = 0\<rparr>"

section \<open>Properties of the MII mode controller\<close>

lemmas mii_ctrl_consts =
  MII_CTRL_SELECT_SHIFT_def MII_CTRL_SELECT_MASK_def MII_CTRL_SELECT_PORT1_MASK_def
  MII_CTRL_SELECT_GMII_def MII_CTRL_SELECT_MII_def MII_CTRL_SELECT_RGMII_def
  MII_CTRL_SELECT_RMII_def MII_CTRL_SPEED_SHIFT_def MII_CTRL_SPEED_MASK_def
  MII_CTRL_SPEED_10_def MII_CTRL_SPEED_100_def MII_CTRL_SPEED_1000_def

lemma three_mask: "(3::u32) = mask 2"
  by (simp add: mask_eq_exp_minus_1)

lemma le3_and3: "(a::u32) \<le> 3 \<Longrightarrow> a AND 3 = a"
proof -
  assume "a \<le> 3"
  then have "uint a \<le> 3" by (simp add: word_le_def)
  then have "uint a < 2 ^ 2" by simp
  then have "a AND mask 2 = a" by (simp only: mask_eq_iff)
  then show ?thesis by (simp only: three_mask)
qed

lemma select_field_compose_and:
  "select_field (push_bit MII_CTRL_SELECT_SHIFT (a AND 3) OR push_bit MII_CTRL_SPEED_SHIFT (b AND 3)) = a AND 3"
  unfolding select_field_def mii_ctrl_consts three_mask
  by (rule bit_word_eqI) (auto simp: bit_simps)

lemma speed_field_compose_and:
  "speed_field (push_bit MII_CTRL_SELECT_SHIFT (a AND 3) OR push_bit MII_CTRL_SPEED_SHIFT (b AND 3)) = b AND 3"
  unfolding speed_field_def mii_ctrl_consts three_mask
  by (rule bit_word_eqI) (auto simp: bit_simps)

lemma select_field_compose:
  "a \<le> 3 \<Longrightarrow> b \<le> 3 \<Longrightarrow>
   select_field (push_bit MII_CTRL_SELECT_SHIFT a OR push_bit MII_CTRL_SPEED_SHIFT b) = a"
  using select_field_compose_and [of a b] by (simp add: le3_and3)

lemma speed_field_compose:
  "a \<le> 3 \<Longrightarrow> b \<le> 3 \<Longrightarrow>
   speed_field (push_bit MII_CTRL_SELECT_SHIFT a OR push_bit MII_CTRL_SPEED_SHIFT b) = b"
  using speed_field_compose_and [of a b] by (simp add: le3_and3)

lemma select_field_le: "select_field w \<le> 3"
  unfolding select_field_def mii_ctrl_consts by (rule word_and_le1)

lemma speed_field_le: "speed_field w \<le> 3"
  unfolding speed_field_def mii_ctrl_consts by (rule word_and_le1)

text \<open>The operations, with the fields named.\<close>

lemma mii_ctrl_set_speed_alt:
  "mii_ctrl_set_speed hdl link_speed regs =
     (case set_speed_code link_speed (select_field (regs (port hdl * 4))) of
        Inl e \<Rightarrow> (Inl e, regs)
      | Inr speed \<Rightarrow>
          (Inr (), regs(port hdl * 4 :=
             push_bit MII_CTRL_SELECT_SHIFT (select_field (regs (port hdl * 4))) OR
             push_bit MII_CTRL_SPEED_SHIFT speed)))"
  by (simp add: mii_ctrl_set_speed_def select_field_def readl_def writel_def Let_def
      split: sum.splits)

lemma set_speed_code_le: "set_speed_code link_speed select = Inr speed \<Longrightarrow> speed \<le> 3"
  by (auto simp: set_speed_code_def mii_ctrl_consts Let_def split: if_splits)

lemma set_interface_select_le: "set_interface_select pl iface = Inr select \<Longrightarrow> select \<le> 3"
  by (auto simp: set_interface_select_def mii_ctrl_consts split: phy_interface_t.splits if_splits)

lemma narrow_le: "(select::u32) \<le> 3 \<Longrightarrow> (if pl = (1::u32) then select AND MII_CTRL_SELECT_PORT1_MASK else select) \<le> 3"
  by (auto simp: mii_ctrl_consts intro: order_trans [OF word_and_le2])

lemma set_interface_speed_le:
  "set_interface_speed hdl iface speed = Inr speed' \<Longrightarrow> speed \<le> 3 \<Longrightarrow> speed' \<le> 3"
  by (auto simp: set_interface_speed_def mii_ctrl_consts split: phy_interface_t.splits if_splits)

lemma set_interface_speed_val:
  "set_interface_speed hdl iface speed = Inr speed' \<Longrightarrow>
   speed' = (if (iface = PHY_INTERFACE_MODE_MII \<or> iface = PHY_INTERFACE_MODE_RMII) \<and>
                speed > MII_CTRL_SPEED_100 then MII_CTRL_SPEED_100 else speed)"
  by (auto simp: set_interface_speed_def split: phy_interface_t.splits if_splits)

lemma mii_ctrl_set_interface_alt:
  "mii_ctrl_set_interface pl hdl iface regs =
     (case set_interface_select pl iface of
        Inl e \<Rightarrow> (Inl e, regs)
      | Inr select0 \<Rightarrow>
          (case set_interface_speed hdl iface (speed_field (regs (port hdl * 4))) of
             Inl e \<Rightarrow> (Inl e, regs)
           | Inr speed' \<Rightarrow>
               (Inr (), regs(port hdl * 4 :=
                  push_bit MII_CTRL_SELECT_SHIFT
                    (if pl = 1 then select0 AND MII_CTRL_SELECT_PORT1_MASK else select0) OR
                  push_bit MII_CTRL_SPEED_SHIFT speed'))))"
  by (simp add: mii_ctrl_set_interface_def speed_field_def readl_def writel_def Let_def
      split: sum.splits)

lemma set_speed_success_select:
  "fst (mii_ctrl_set_speed hdl link_speed regs) = Inr () \<Longrightarrow>
   select_field (snd (mii_ctrl_set_speed hdl link_speed regs) (port hdl * 4)) =
   select_field (regs (port hdl * 4))"
  by (auto simp: mii_ctrl_set_speed_alt select_field_compose select_field_le
      dest: set_speed_code_le split: sum.splits)

lemma set_interface_success_speed:
  "fst (mii_ctrl_set_interface pl hdl iface regs) = Inr () \<Longrightarrow>
   speed_field (snd (mii_ctrl_set_interface pl hdl iface regs) (port hdl * 4)) =
   (if (iface = PHY_INTERFACE_MODE_MII \<or> iface = PHY_INTERFACE_MODE_RMII) \<and>
       speed_field (regs (port hdl * 4)) > MII_CTRL_SPEED_100
    then MII_CTRL_SPEED_100 else speed_field (regs (port hdl * 4)))"
proof -
  assume ok: "fst (mii_ctrl_set_interface pl hdl iface regs) = Inr ()"
  let ?sp = "speed_field (regs (port hdl * 4))"
  from ok obtain select0 where s0: "set_interface_select pl iface = Inr select0"
    by (auto simp: mii_ctrl_set_interface_alt split: sum.splits)
  from ok s0 obtain speed' where s1: "set_interface_speed hdl iface ?sp = Inr speed'"
    by (auto simp: mii_ctrl_set_interface_alt split: sum.splits)
  have a: "(if pl = 1 then select0 AND MII_CTRL_SELECT_PORT1_MASK else select0) \<le> 3"
    by (rule narrow_le [OF set_interface_select_le [OF s0]])
  have b: "speed' \<le> 3"
    by (rule set_interface_speed_le [OF s1 speed_field_le])
  have "speed_field (snd (mii_ctrl_set_interface pl hdl iface regs) (port hdl * 4)) = speed'"
    using speed_field_compose [OF a b] by (simp add: mii_ctrl_set_interface_alt s0 s1)
  with set_interface_speed_val [OF s1] show ?thesis by simp
qed

lemmas mii_eval =
  mii_ctrl_set_speed_def mii_ctrl_set_interface_def set_speed_code_def
  set_interface_select_def set_interface_speed_def readl_def writel_def
  select_field_def speed_field_def every_offset_def mii_ctrl_consts

lemma set_speed_10_general:
  "mii_ctrl_set_speed hdl 10 regs =
     (Inr (), regs(port hdl * 4 :=
        push_bit MII_CTRL_SELECT_SHIFT (select_field (regs (port hdl * 4))) OR
        push_bit MII_CTRL_SPEED_SHIFT MII_CTRL_SPEED_100))"
  by (simp add: mii_ctrl_set_speed_alt set_speed_code_def)

text \<open>
  C2. A request for 10 Mb/s should write the speed code 0. On a port whose register
  word is 0, \<open>mii_ctrl_set_speed\<close> with \<open>link_speed = 10\<close> succeeds and leaves the
  word \<open>0x10\<close>: the speed field holds 1, the code of 100 Mb/s, because \<open>case 10\<close>
  falls through into \<open>case 100\<close>.
\<close>

theorem set_speed_10_writes_speed_100:
  "mii_ctrl_set_speed \<lparr>ctrl = \<lparr>num_port = 2, has_gbit = True\<rparr>, port = 0\<rparr> 10 (every_offset 0) =
     (Inr (), (every_offset 0)(0 := 0x10)) \<and>
   speed_field 0x10 = MII_CTRL_SPEED_100 \<and> speed_field 0x10 \<noteq> MII_CTRL_SPEED_10"
  by (simp add: mii_eval)

text \<open>
  C3. GMII should be refused on every port other than 0. With a handle for port 1 and
  the unassigned local \<open>port\<close> holding 0, \<open>mii_ctrl_set_interface\<close> accepts GMII and
  rewrites the register word of port 1 (at offset 4) from \<open>0x11\<close> to \<open>0x10\<close>: the
  port stored in the handle is not what the check reads.
\<close>

theorem set_interface_gmii_on_port_1:
  "mii_ctrl_set_interface 0 \<lparr>ctrl = \<lparr>num_port = 2, has_gbit = True\<rparr>, port = 1\<rparr>
     PHY_INTERFACE_MODE_GMII (every_offset 0x11) =
     (Inr (), (every_offset 0x11)(4 := 0x10))"
  by (simp add: mii_eval)

lemma set_interface_ignores_handle_port:
  "fst (mii_ctrl_set_interface pl (hdl\<lparr>port := p\<rparr>) iface regs) =
   fst (mii_ctrl_set_interface pl hdl iface regs')"
  by (simp add: mii_ctrl_set_interface_alt set_interface_speed_def
      split: sum.splits phy_interface_t.splits)

text \<open>
  C7. For every handle and every register window, \<open>mii_ctrl_set_speed\<close> with
  \<open>link_speed = 1000\<close> returns \<open>-EINVAL\<close> and writes nothing when the select field
  of the port's word is MII (1) or RMII (3); otherwise it succeeds, writes the word
  made of the select field read and the speed code 2, and the speed field of the
  port's word is 2 afterwards.
\<close>

theorem set_speed_1000:
  "(select_field (regs (port hdl * 4)) = MII_CTRL_SELECT_MII \<or>
    select_field (regs (port hdl * 4)) = MII_CTRL_SELECT_RMII \<longrightarrow>
      mii_ctrl_set_speed hdl 1000 regs = (Inl EINVAL, regs)) \<and>
   (select_field (regs (port hdl * 4)) \<noteq> MII_CTRL_SELECT_MII \<and>
    select_field (regs (port hdl * 4)) \<noteq> MII_CTRL_SELECT_RMII \<longrightarrow>
      mii_ctrl_set_speed hdl 1000 regs =
        (Inr (), regs(port hdl * 4 :=
           push_bit MII_CTRL_SELECT_SHIFT (select_field (regs (port hdl * 4))) OR
           push_bit MII_CTRL_SPEED_SHIFT MII_CTRL_SPEED_1000)) \<and>
      speed_field (snd (mii_ctrl_set_speed hdl 1000 regs) (port hdl * 4)) = MII_CTRL_SPEED_1000)"
proof -
  have "speed_field (push_bit MII_CTRL_SELECT_SHIFT (select_field (regs (port hdl * 4))) OR
          push_bit MII_CTRL_SPEED_SHIFT MII_CTRL_SPEED_1000) = MII_CTRL_SPEED_1000"
    by (rule speed_field_compose [OF select_field_le]) (simp add: MII_CTRL_SPEED_1000_def)
  then show ?thesis
    by (simp add: mii_ctrl_set_speed_alt set_speed_code_def)
qed

text \<open>
  C7 at concrete inputs: the word \<open>0x13\<close> (RMII) makes the request fail and stay
  without effect, the word \<open>0x12\<close> (RGMII) makes it write the speed code 2.
\<close>

theorem set_speed_1000_witness:
  "select_field (every_offset 0x13 (port \<lparr>ctrl = \<lparr>num_port = 2, has_gbit = True\<rparr>, port = 0\<rparr> * 4)) =
     MII_CTRL_SELECT_RMII \<and>
   mii_ctrl_set_speed \<lparr>ctrl = \<lparr>num_port = 2, has_gbit = True\<rparr>, port = 0\<rparr> 1000 (every_offset 0x13) =
     (Inl EINVAL, every_offset 0x13) \<and>
   select_field (every_offset 0x12 (port \<lparr>ctrl = \<lparr>num_port = 2, has_gbit = True\<rparr>, port = 0\<rparr> * 4)) \<noteq>
     MII_CTRL_SELECT_MII \<and>
   select_field (every_offset 0x12 (port \<lparr>ctrl = \<lparr>num_port = 2, has_gbit = True\<rparr>, port = 0\<rparr> * 4)) \<noteq>
     MII_CTRL_SELECT_RMII \<and>
   speed_field (snd (mii_ctrl_set_speed \<lparr>ctrl = \<lparr>num_port = 2, has_gbit = True\<rparr>, port = 0\<rparr> 1000
     (every_offset 0x12)) (port \<lparr>ctrl = \<lparr>num_port = 2, has_gbit = True\<rparr>, port = 0\<rparr> * 4)) =
     MII_CTRL_SPEED_1000"
proof -
  let ?h = "\<lparr>ctrl = \<lparr>num_port = 2, has_gbit = True\<rparr>, port = 0\<rparr>"
  have a: "select_field (every_offset 0x13 (port ?h * 4)) = MII_CTRL_SELECT_RMII"
    by (simp add: select_field_def every_offset_def mii_ctrl_consts)
  have b: "select_field (every_offset 0x12 (port ?h * 4)) \<noteq> MII_CTRL_SELECT_MII"
    by (simp add: select_field_def every_offset_def mii_ctrl_consts)
  have c: "select_field (every_offset 0x12 (port ?h * 4)) \<noteq> MII_CTRL_SELECT_RMII"
    by (simp add: select_field_def every_offset_def mii_ctrl_consts)
  have r1: "mii_ctrl_set_speed ?h 1000 (every_offset 0x13) = (Inl EINVAL, every_offset 0x13)"
    using a set_speed_1000 [where hdl = ?h and regs = "every_offset 0x13"] by blast
  have r2: "speed_field (snd (mii_ctrl_set_speed ?h 1000 (every_offset 0x12)) (port ?h * 4)) =
      MII_CTRL_SPEED_1000"
    using b c set_speed_1000 [where hdl = ?h and regs = "every_offset 0x12"] by blast
  from a b c r1 r2 show ?thesis by blast
qed

text \<open>
  C8 as stated fails for \<open>mii_ctrl_set_interface\<close>: on port 0 with the word \<open>0x20\<close>
  (GMII at 1000 Mb/s), selecting MII succeeds and the speed field changes from 2 to 1.
\<close>

theorem set_interface_mii_clamps_speed:
  "fst (mii_ctrl_set_interface 0 \<lparr>ctrl = \<lparr>num_port = 2, has_gbit = True\<rparr>, port = 0\<rparr>
          PHY_INTERFACE_MODE_MII (every_offset 0x20)) = Inr () \<and>
   speed_field (every_offset 0x20 0) = MII_CTRL_SPEED_1000 \<and>
   speed_field (snd (mii_ctrl_set_interface 0 \<lparr>ctrl = \<lparr>num_port = 2, has_gbit = True\<rparr>, port = 0\<rparr>
          PHY_INTERFACE_MODE_MII (every_offset 0x20)) 0) = MII_CTRL_SPEED_100 \<and>
   MII_CTRL_SPEED_100 \<noteq> MII_CTRL_SPEED_1000"
  by (simp add: mii_eval)

text \<open>
  C8, amended. Every successful \<open>mii_ctrl_set_speed\<close> leaves the select field of the
  port's word as it was. Every successful \<open>mii_ctrl_set_interface\<close> leaves the speed
  field as it was, except that for MII and RMII a speed code above 1 (100 Mb/s) is
  replaced by 1.
\<close>

theorem set_speed_keeps_select_set_interface_keeps_or_clamps_speed:
  "(fst (mii_ctrl_set_speed hdl link_speed regs) = Inr () \<longrightarrow>
      select_field (snd (mii_ctrl_set_speed hdl link_speed regs) (port hdl * 4)) =
      select_field (regs (port hdl * 4))) \<and>
   (fst (mii_ctrl_set_interface port_local hdl iface regs) = Inr () \<longrightarrow>
      speed_field (snd (mii_ctrl_set_interface port_local hdl iface regs) (port hdl * 4)) =
      (if (iface = PHY_INTERFACE_MODE_MII \<or> iface = PHY_INTERFACE_MODE_RMII) \<and>
          speed_field (regs (port hdl * 4)) > MII_CTRL_SPEED_100
       then MII_CTRL_SPEED_100 else speed_field (regs (port hdl * 4))))"
  using set_speed_success_select set_interface_success_speed by blast

text \<open>
  C8, amended, at concrete inputs: on the word \<open>0x22\<close> (RGMII at 1000 Mb/s) a
  request for 100 Mb/s keeps RGMII, and selecting RMII brings the speed code to 1.
\<close>

theorem set_speed_keeps_select_set_interface_keeps_or_clamps_speed_witness:
  "fst (mii_ctrl_set_speed \<lparr>ctrl = \<lparr>num_port = 2, has_gbit = True\<rparr>, port = 0\<rparr> 100 (every_offset 0x22)) = Inr () \<and>
   select_field (snd (mii_ctrl_set_speed \<lparr>ctrl = \<lparr>num_port = 2, has_gbit = True\<rparr>, port = 0\<rparr> 100
      (every_offset 0x22)) 0) = MII_CTRL_SELECT_RGMII \<and>
   fst (mii_ctrl_set_interface 0 \<lparr>ctrl = \<lparr>num_port = 2, has_gbit = True\<rparr>, port = 0\<rparr>
      PHY_INTERFACE_MODE_RMII (every_offset 0x22)) = Inr () \<and>
   speed_field (snd (mii_ctrl_set_interface 0 \<lparr>ctrl = \<lparr>num_port = 2, has_gbit = True\<rparr>, port = 0\<rparr>
      PHY_INTERFACE_MODE_RMII (every_offset 0x22)) 0) = MII_CTRL_SPEED_100"
proof -
  let ?h = "\<lparr>ctrl = \<lparr>num_port = 2, has_gbit = True\<rparr>, port = 0\<rparr>"
  have a: "fst (mii_ctrl_set_speed ?h 100 (every_offset 0x22)) = Inr ()"
    by (simp add: mii_eval)
  have b: "fst (mii_ctrl_set_interface 0 ?h PHY_INTERFACE_MODE_RMII (every_offset 0x22)) = Inr ()"
    by (simp add: mii_eval)
  have c: "select_field (every_offset 0x22 (port ?h * 4)) = MII_CTRL_SELECT_RGMII"
    by (simp add: mii_eval)
  have d: "speed_field (every_offset 0x22 (port ?h * 4)) = 2"
    by (simp add: mii_eval)
  from a b c d
    set_speed_keeps_select_set_interface_keeps_or_clamps_speed
      [where hdl = ?h and link_speed = 100 and regs = "every_offset 0x22" and port_local = 0
         and iface = PHY_INTERFACE_MODE_RMII]
  show ?thesis by (simp add: MII_CTRL_SPEED_100_def)
qed

text \<open>
  C9. \<open>mii_ctrl_set_speed\<close> with \<open>link_speed = 1000\<close> does not depend on
  \<open>has_gbit\<close>: giving the flag any value changes neither the result nor the window
  written, and with the flag false the call succeeds whenever the select field read
  is GMII (0) or RGMII (2).
\<close>

theorem set_speed_1000_ignores_has_gbit:
  "mii_ctrl_set_speed (hdl\<lparr>ctrl := (ctrl hdl)\<lparr>has_gbit := g\<rparr>\<rparr>) 1000 regs =
     mii_ctrl_set_speed hdl 1000 regs \<and>
   (select_field (regs (port hdl * 4)) = MII_CTRL_SELECT_GMII \<or>
    select_field (regs (port hdl * 4)) = MII_CTRL_SELECT_RGMII \<longrightarrow>
      fst (mii_ctrl_set_speed (hdl\<lparr>ctrl := (ctrl hdl)\<lparr>has_gbit := False\<rparr>\<rparr>) 1000 regs) = Inr ())"
  by (auto simp: mii_ctrl_set_speed_alt set_speed_code_def mii_ctrl_consts)

text \<open>
  C9 at a concrete input: a controller without gigabit support, port 0 on RGMII.
\<close>

theorem set_speed_1000_ignores_has_gbit_witness:
  "select_field (every_offset 0x02 (port \<lparr>ctrl = \<lparr>num_port = 2, has_gbit = False\<rparr>, port = 0\<rparr> * 4)) =
     MII_CTRL_SELECT_RGMII \<and>
   fst (mii_ctrl_set_speed \<lparr>ctrl = \<lparr>num_port = 2, has_gbit = False\<rparr>, port = 0\<rparr> 1000
     (every_offset 0x02)) = Inr ()"
proof -
  let ?h = "\<lparr>ctrl = \<lparr>num_port = 2, has_gbit = False\<rparr>, port = 0\<rparr>"
  have a: "select_field (every_offset 0x02 (port ?h * 4)) = MII_CTRL_SELECT_RGMII"
    by (simp add: select_field_def every_offset_def mii_ctrl_consts)
  from a set_speed_1000_ignores_has_gbit [where hdl = ?h and g = False and regs = "every_offset 0x02"]
  show ?thesis by simp
qed

text \<open>
  C10. Whenever \<open>mii_ctrl_set_interface\<close> or \<open>mii_ctrl_set_speed\<close> returns an error,
  the error is \<open>-EINVAL\<close> and the register window is the one the call started with.
\<close>

theorem error_leaves_register_unchanged:
  "(fst (mii_ctrl_set_interface port_local hdl iface regs) = Inl e \<longrightarrow>
      e = EINVAL \<and> snd (mii_ctrl_set_interface port_local hdl iface regs) = regs) \<and>
   (fst (mii_ctrl_set_speed hdl link_speed regs) = Inl e' \<longrightarrow>
      e' = EINVAL \<and> snd (mii_ctrl_set_speed hdl link_speed regs) = regs)"
  by (auto simp: mii_ctrl_set_interface_alt mii_ctrl_set_speed_alt set_speed_code_def
      set_interface_select_def set_interface_speed_def Let_def
      split: sum.splits phy_interface_t.splits if_splits)

text \<open>
  C10 at concrete inputs: GMII with the local \<open>port\<close> holding 1, and the speed 2500.
\<close>

theorem error_leaves_register_unchanged_witness:
  "fst (mii_ctrl_set_interface 1 \<lparr>ctrl = \<lparr>num_port = 2, has_gbit = True\<rparr>, port = 1\<rparr>
      PHY_INTERFACE_MODE_GMII (every_offset 0x11)) = Inl EINVAL \<and>
   snd (mii_ctrl_set_interface 1 \<lparr>ctrl = \<lparr>num_port = 2, has_gbit = True\<rparr>, port = 1\<rparr>
      PHY_INTERFACE_MODE_GMII (every_offset 0x11)) = every_offset 0x11 \<and>
   fst (mii_ctrl_set_speed \<lparr>ctrl = \<lparr>num_port = 2, has_gbit = True\<rparr>, port = 1\<rparr> 2500
      (every_offset 0x11)) = Inl EINVAL \<and>
   snd (mii_ctrl_set_speed \<lparr>ctrl = \<lparr>num_port = 2, has_gbit = True\<rparr>, port = 1\<rparr> 2500
      (every_offset 0x11)) = every_offset 0x11"
proof -
  let ?h = "\<lparr>ctrl = \<lparr>num_port = 2, has_gbit = True\<rparr>, port = 1\<rparr>"
  have a: "fst (mii_ctrl_set_interface 1 ?h PHY_INTERFACE_MODE_GMII (every_offset 0x11)) = Inl EINVAL"
    by (simp add: mii_ctrl_set_interface_def set_interface_select_def Let_def)
  have b: "fst (mii_ctrl_set_speed ?h 2500 (every_offset 0x11)) = Inl EINVAL"
    by (simp add: mii_ctrl_set_speed_def set_speed_code_def Let_def)
  from a b
    error_leaves_register_unchanged
      [where port_local = 1 and hdl = ?h and iface = PHY_INTERFACE_MODE_GMII
         and regs = "every_offset 0x11" and e = EINVAL and link_speed = 2500 and e' = EINVAL]
  show ?thesis by simp
qed

section \<open>Properties of the MDIO bus controller\<close>

lemmas mdio_consts =
  AG71XX_MDIO_RETRY_def AG71XX_MDIO_DELAY_def AG71XX_REG_MII_CFG_def AG71XX_REG_MII_CMD_def
  AG71XX_REG_MII_ADDR_def AG71XX_REG_MII_CTRL_def AG71XX_REG_MII_STATUS_def
  AG71XX_REG_MII_IND_def MII_CMD_WRITE_def MII_CMD_READ_def MII_ADDR_SHIFT_def
  MII_IND_BUSY_def MII_IND_INVALID_def MII_CFG_RESET_def EINVAL_number_def

lemma rr_ind:
  "ag71xx_mdio_rr d AG71XX_REG_MII_IND =
     (ind_seq d (ind_reads d), d\<lparr>ind_reads := Suc (ind_reads d)\<rparr>)"
  by (simp add: ag71xx_mdio_rr_def raw_readl_def)

lemma rr_status: "ag71xx_mdio_rr d AG71XX_REG_MII_STATUS = (mii_status d, d)"
  by (simp add: ag71xx_mdio_rr_def raw_readl_def mdio_consts)

lemma wr_config:
  "reg \<noteq> AG71XX_REG_MII_IND \<Longrightarrow>
   ag71xx_mdio_wr d reg v = d\<lparr>mdio_regs := (mdio_regs d)(reg := v)\<rparr>"
  by (simp add: ag71xx_mdio_wr_def raw_readl_def raw_writel_def)

lemma wait_busy_loop_step:
  "i < AG71XX_MDIO_RETRY \<Longrightarrow>
   wait_busy_loop i d =
     (if ind_seq d (ind_reads d) = 0 then (Inr (), d\<lparr>ind_reads := Suc (ind_reads d)\<rparr>)
      else wait_busy_loop (Suc i)
             (d\<lparr>ind_reads := Suc (ind_reads d), elapsed_us := elapsed_us d + AG71XX_MDIO_DELAY\<rparr>))"
  by (subst wait_busy_loop.simps) (simp add: rr_ind udelay_def Let_def)

lemma wait_busy_loop_end:
  "\<not> i < AG71XX_MDIO_RETRY \<Longrightarrow> wait_busy_loop i d = (Inl ETIMEDOUT, d)"
  by (subst wait_busy_loop.simps) simp

lemma wait_busy_loop_idle:
  "i + k < AG71XX_MDIO_RETRY \<Longrightarrow> ind_seq d (ind_reads d + k) = 0 \<Longrightarrow>
   \<forall>j<k. ind_seq d (ind_reads d + j) \<noteq> 0 \<Longrightarrow>
   wait_busy_loop i d =
     (Inr (), d\<lparr>ind_reads := ind_reads d + k + 1,
                elapsed_us := elapsed_us d + AG71XX_MDIO_DELAY * k\<rparr>)"
proof (induction k arbitrary: i d)
  case 0
  then show ?case by (simp add: wait_busy_loop_step)
next
  case (Suc k)
  let ?d = "d\<lparr>ind_reads := Suc (ind_reads d), elapsed_us := elapsed_us d + AG71XX_MDIO_DELAY\<rparr>"
  from Suc.prems have nz: "ind_seq d (ind_reads d) \<noteq> 0" by auto
  have a: "Suc i + k < AG71XX_MDIO_RETRY" using Suc.prems by simp
  have b: "ind_seq ?d (ind_reads ?d + k) = 0" using Suc.prems by simp
  have c: "\<forall>j<k. ind_seq ?d (ind_reads ?d + j) \<noteq> 0"
  proof (intro allI impI)
    fix j assume "j < k"
    then have "Suc j < Suc k" by simp
    with Suc.prems(3) have "ind_seq d (ind_reads d + Suc j) \<noteq> 0" by blast
    then show "ind_seq ?d (ind_reads ?d + j) \<noteq> 0" by simp
  qed
  have i: "i < AG71XX_MDIO_RETRY" using Suc.prems by simp
  show ?case
    by (simp add: wait_busy_loop_step [OF i] nz Suc.IH [OF a b c])
qed

lemma wait_busy_loop_timeout:
  "n = AG71XX_MDIO_RETRY - i \<Longrightarrow> \<forall>j<n. ind_seq d (ind_reads d + j) \<noteq> 0 \<Longrightarrow>
   wait_busy_loop i d =
     (Inl ETIMEDOUT, d\<lparr>ind_reads := ind_reads d + n,
                        elapsed_us := elapsed_us d + AG71XX_MDIO_DELAY * n\<rparr>)"
proof (induction n arbitrary: i d)
  case 0
  then show ?case by (simp add: wait_busy_loop_end)
next
  case (Suc n)
  let ?d = "d\<lparr>ind_reads := Suc (ind_reads d), elapsed_us := elapsed_us d + AG71XX_MDIO_DELAY\<rparr>"
  have "0 < Suc n" by simp
  with Suc.prems(2) have "ind_seq d (ind_reads d + 0) \<noteq> 0" by blast
  then have nz: "ind_seq d (ind_reads d) \<noteq> 0" by simp
  have i: "i < AG71XX_MDIO_RETRY" using Suc.prems by simp
  have a: "n = AG71XX_MDIO_RETRY - Suc i" using Suc.prems by simp
  have c: "\<forall>j<n. ind_seq ?d (ind_reads ?d + j) \<noteq> 0"
  proof (intro allI impI)
    fix j assume "j < n"
    then have "Suc j < Suc n" by simp
    with Suc.prems(2) have "ind_seq d (ind_reads d + Suc j) \<noteq> 0" by blast
    then show "ind_seq ?d (ind_reads ?d + j) \<noteq> 0" by simp
  qed
  show ?case
    by (simp add: wait_busy_loop_step [OF i] nz Suc.IH [OF a c])
qed

lemma wait_busy_loop_frame:
  "mdio_regs (snd (wait_busy_loop i d)) = mdio_regs d \<and>
   mii_status (snd (wait_busy_loop i d)) = mii_status d \<and>
   ind_seq (snd (wait_busy_loop i d)) = ind_seq d"
proof (induction i d rule: wait_busy_loop.induct)
  case (1 i d)
  show ?case
  proof (cases "i < AG71XX_MDIO_RETRY")
    case False
    then show ?thesis by (simp add: wait_busy_loop_end)
  next
    case True
    show ?thesis
    proof (cases "ind_seq d (ind_reads d) = 0")
      case z: True
      then show ?thesis by (simp add: wait_busy_loop_step [OF True])
    next
      case nz: False
      have "fst (ag71xx_mdio_rr d AG71XX_REG_MII_IND) \<noteq> 0" using nz by (simp add: rr_ind)
      from "1.IH" [OF True refl refl refl this] nz
      show ?thesis by (simp add: wait_busy_loop_step [OF True] rr_ind udelay_def)
    qed
  qed
qed

lemma wait_busy_loop_timeout_all_busy:
  "fst (wait_busy_loop i d) = Inl ETIMEDOUT \<Longrightarrow>
   \<forall>j < AG71XX_MDIO_RETRY - i. ind_seq d (ind_reads d + j) \<noteq> 0"
proof (induction i d rule: wait_busy_loop.induct)
  case (1 i d)
  show ?case
  proof (cases "i < AG71XX_MDIO_RETRY")
    case False
    then show ?thesis by simp
  next
    case True
    let ?d = "d\<lparr>ind_reads := Suc (ind_reads d), elapsed_us := elapsed_us d + AG71XX_MDIO_DELAY\<rparr>"
    from "1.prems" have nz: "ind_seq d (ind_reads d) \<noteq> 0"
      by (auto simp: wait_busy_loop_step [OF True] split: if_splits)
    have f: "fst (ag71xx_mdio_rr d AG71XX_REG_MII_IND) \<noteq> 0" using nz by (simp add: rr_ind)
    from "1.prems" nz have t: "fst (wait_busy_loop (i + 1) (udelay AG71XX_MDIO_DELAY (snd (ag71xx_mdio_rr d AG71XX_REG_MII_IND)))) = Inl ETIMEDOUT"
      by (simp add: wait_busy_loop_step [OF True] rr_ind udelay_def)
    from "1.IH" [OF True refl refl refl f t]
    have ih: "\<forall>j<AG71XX_MDIO_RETRY - Suc i. ind_seq d (Suc (ind_reads d) + j) \<noteq> 0"
      by (simp add: rr_ind udelay_def)
    show ?thesis
    proof (intro allI impI)
      fix j assume j: "j < AG71XX_MDIO_RETRY - i"
      show "ind_seq d (ind_reads d + j) \<noteq> 0"
      proof (cases j)
        case 0
        then show ?thesis using nz by simp
      next
        case (Suc j')
        with j have "j' < AG71XX_MDIO_RETRY - Suc i" by simp
        with ih have "ind_seq d (Suc (ind_reads d) + j') \<noteq> 0" by blast
        then show ?thesis using Suc by simp
      qed
    qed
  qed
qed

lemma wait_busy_idle:
  "k < AG71XX_MDIO_RETRY \<Longrightarrow> ind_seq d (ind_reads d + k) = 0 \<Longrightarrow>
   \<forall>j<k. ind_seq d (ind_reads d + j) \<noteq> 0 \<Longrightarrow>
   ag71xx_mdio_wait_busy d =
     (Inr (), d\<lparr>ind_reads := ind_reads d + k + 1,
                elapsed_us := elapsed_us d + AG71XX_MDIO_DELAY * k\<rparr>)"
  unfolding ag71xx_mdio_wait_busy_def by (rule wait_busy_loop_idle) simp_all

lemma wait_busy_timeout:
  "\<forall>j<AG71XX_MDIO_RETRY. ind_seq d (ind_reads d + j) \<noteq> 0 \<Longrightarrow>
   ag71xx_mdio_wait_busy d =
     (Inl ETIMEDOUT, d\<lparr>ind_reads := ind_reads d + AG71XX_MDIO_RETRY,
                        elapsed_us := elapsed_us d + AG71XX_MDIO_DELAY * AG71XX_MDIO_RETRY\<rparr>)"
  unfolding ag71xx_mdio_wait_busy_def by (rule wait_busy_loop_timeout) simp_all

lemma wait_busy_timeout_only:
  "fst (ag71xx_mdio_wait_busy d) = Inl ETIMEDOUT \<Longrightarrow>
   \<forall>j<AG71XX_MDIO_RETRY. ind_seq d (ind_reads d + j) \<noteq> 0"
  unfolding ag71xx_mdio_wait_busy_def by (drule wait_busy_loop_timeout_all_busy) simp

lemma wait_busy_frame:
  "mdio_regs (snd (ag71xx_mdio_wait_busy d)) = mdio_regs d \<and>
   mii_status (snd (ag71xx_mdio_wait_busy d)) = mii_status d \<and>
   ind_seq (snd (ag71xx_mdio_wait_busy d)) = ind_seq d"
  unfolding ag71xx_mdio_wait_busy_def by (rule wait_busy_loop_frame)

text \<open>
  C5 as stated fails: when every read of \<open>IND\<close> returns 4 (the invalid flag, bit 2),
  the busy bit is clear from the first poll on, yet \<open>ag71xx_mdio_wait_busy\<close> does not
  return success and ends with \<open>-ETIMEDOUT\<close>.
\<close>

theorem wait_busy_ignores_busy_mask:
  "ind_seq (idle_dev 0 (ind_values [] 4)) (ind_reads (idle_dev 0 (ind_values [] 4))) AND MII_IND_BUSY = 0 \<and>
   fst (ag71xx_mdio_wait_busy (idle_dev 0 (ind_values [] 4))) = Inl ETIMEDOUT \<and>
   fst (ag71xx_mdio_wait_busy (idle_dev 0 (ind_values [] 4))) \<noteq> Inr ()"
proof -
  have "\<forall>j<AG71XX_MDIO_RETRY.
      ind_seq (idle_dev 0 (ind_values [] 4)) (ind_reads (idle_dev 0 (ind_values [] 4)) + j) \<noteq> 0"
    by (simp add: idle_dev_def ind_values_def)
  from wait_busy_timeout [OF this] show ?thesis
    by (simp add: idle_dev_def ind_values_def MII_IND_BUSY_def)
qed

text \<open>
  C5, amended. For every sequence of \<open>IND\<close> values, \<open>ag71xx_mdio_wait_busy\<close> returns
  success at the first poll, among the 1000, that reads the whole word \<open>IND\<close> as zero
  (after \<open>k\<close> nonzero reads it has made \<open>k + 1\<close> reads and waited \<open>5 * k\<close>
  microseconds); it returns \<open>-ETIMEDOUT\<close> exactly when all 1000 polls read a nonzero
  word, and it has then made 1000 reads.
\<close>

theorem wait_busy_polls_until_ind_zero:
  "(k < AG71XX_MDIO_RETRY \<and> ind_seq d (ind_reads d + k) = 0 \<and>
    (\<forall>j<k. ind_seq d (ind_reads d + j) \<noteq> 0) \<longrightarrow>
      ag71xx_mdio_wait_busy d =
        (Inr (), d\<lparr>ind_reads := ind_reads d + k + 1,
                   elapsed_us := elapsed_us d + AG71XX_MDIO_DELAY * k\<rparr>)) \<and>
   (fst (ag71xx_mdio_wait_busy d) = Inl ETIMEDOUT \<longleftrightarrow>
      (\<forall>j<AG71XX_MDIO_RETRY. ind_seq d (ind_reads d + j) \<noteq> 0)) \<and>
   (fst (ag71xx_mdio_wait_busy d) = Inl ETIMEDOUT \<longrightarrow>
      ind_reads (snd (ag71xx_mdio_wait_busy d)) = ind_reads d + AG71XX_MDIO_RETRY)"
proof (intro conjI impI iffI)
  assume "k < AG71XX_MDIO_RETRY \<and> ind_seq d (ind_reads d + k) = 0 \<and>
    (\<forall>j<k. ind_seq d (ind_reads d + j) \<noteq> 0)"
  then show "ag71xx_mdio_wait_busy d =
        (Inr (), d\<lparr>ind_reads := ind_reads d + k + 1,
                   elapsed_us := elapsed_us d + AG71XX_MDIO_DELAY * k\<rparr>)"
    by (intro wait_busy_idle) simp_all
next
  assume "fst (ag71xx_mdio_wait_busy d) = Inl ETIMEDOUT"
  then show "\<forall>j<AG71XX_MDIO_RETRY. ind_seq d (ind_reads d + j) \<noteq> 0"
    by (rule wait_busy_timeout_only)
next
  assume "\<forall>j<AG71XX_MDIO_RETRY. ind_seq d (ind_reads d + j) \<noteq> 0"
  then show "fst (ag71xx_mdio_wait_busy d) = Inl ETIMEDOUT"
    by (simp add: wait_busy_timeout)
next
  assume "fst (ag71xx_mdio_wait_busy d) = Inl ETIMEDOUT"
  then have "\<forall>j<AG71XX_MDIO_RETRY. ind_seq d (ind_reads d + j) \<noteq> 0"
    by (rule wait_busy_timeout_only)
  then show "ind_reads (snd (ag71xx_mdio_wait_busy d)) = ind_reads d + AG71XX_MDIO_RETRY"
    by (simp add: wait_busy_timeout)
qed

text \<open>
  C5, amended, at concrete inputs: the reads 1, 4, 0 give success at the third poll;
  the busy bit held set gives the timeout after 1000 reads.
\<close>

theorem wait_busy_polls_until_ind_zero_witness:
  "ag71xx_mdio_wait_busy (idle_dev 0 (ind_values [1, 4] 0)) =
     (Inr (), (idle_dev 0 (ind_values [1, 4] 0))\<lparr>ind_reads := 3, elapsed_us := 10\<rparr>) \<and>
   fst (ag71xx_mdio_wait_busy (idle_dev 0 (ind_values [] 1))) = Inl ETIMEDOUT \<and>
   ind_reads (snd (ag71xx_mdio_wait_busy (idle_dev 0 (ind_values [] 1)))) = 1000"
proof -
  let ?a = "idle_dev 0 (ind_values [1, 4] 0)"
  let ?b = "idle_dev 0 (ind_values [] 1)"
  have a1: "(2::nat) < AG71XX_MDIO_RETRY" by (simp add: AG71XX_MDIO_RETRY_def)
  have a2: "ind_seq ?a (ind_reads ?a + 2) = 0" by (simp add: idle_dev_def ind_values_def)
  have a3: "\<forall>j<2. ind_seq ?a (ind_reads ?a + j) \<noteq> 0"
  proof (intro allI impI)
    fix j :: nat
    assume "j < 2"
    then have "j = 0 \<or> j = 1" by arith
    then show "ind_seq ?a (ind_reads ?a + j) \<noteq> 0"
      by (auto simp: idle_dev_def ind_values_def)
  qed
  have b1: "\<forall>j<AG71XX_MDIO_RETRY. ind_seq ?b (ind_reads ?b + j) \<noteq> 0"
    by (simp add: idle_dev_def ind_values_def)
  have ra: "ag71xx_mdio_wait_busy ?a =
      (Inr (), ?a\<lparr>ind_reads := ind_reads ?a + 2 + 1,
                  elapsed_us := elapsed_us ?a + AG71XX_MDIO_DELAY * 2\<rparr>)"
    using a1 a2 a3 wait_busy_polls_until_ind_zero [where d = ?a and k = 2] by blast
  have rb: "fst (ag71xx_mdio_wait_busy ?b) = Inl ETIMEDOUT"
    using b1 wait_busy_polls_until_ind_zero [where d = ?b and k = 0] by blast
  have rc: "ind_reads (snd (ag71xx_mdio_wait_busy ?b)) = ind_reads ?b + AG71XX_MDIO_RETRY"
    using rb wait_busy_polls_until_ind_zero [where d = ?b and k = 0] by blast
  from ra rb rc show ?thesis
    by (simp add: idle_dev_def AG71XX_MDIO_DELAY_def AG71XX_MDIO_RETRY_def)
qed

lemma reg_distinct:
  "AG71XX_REG_MII_CMD \<noteq> AG71XX_REG_MII_IND" "AG71XX_REG_MII_ADDR \<noteq> AG71XX_REG_MII_IND"
  "AG71XX_REG_MII_CFG \<noteq> AG71XX_REG_MII_IND" "AG71XX_REG_MII_CMD \<noteq> AG71XX_REG_MII_ADDR"
  "AG71XX_REG_MII_ADDR \<noteq> AG71XX_REG_MII_CMD"
  by (simp_all add: mdio_consts)

lemma mdio_read_success_regs:
  assumes "ag71xx_mdio_read d addr reg = (Inr v, d')"
  shows "v = mii_status d AND 0xffff"
    and "mdio_regs d' =
      (mdio_regs d)(AG71XX_REG_MII_ADDR :=
          push_bit MII_ADDR_SHIFT (addr AND 0xff) OR (reg AND 0xff),
        AG71XX_REG_MII_CMD := MII_CMD_WRITE)"
proof -
  obtain r1 d1 where w1: "ag71xx_mdio_wait_busy d = (r1, d1)" by (cases "ag71xx_mdio_wait_busy d")
  let ?d4 = "ag71xx_mdio_wr (ag71xx_mdio_wr (ag71xx_mdio_wr d1 AG71XX_REG_MII_CMD MII_CMD_WRITE)
      AG71XX_REG_MII_ADDR (push_bit MII_ADDR_SHIFT (addr AND 0xff) OR (reg AND 0xff)))
      AG71XX_REG_MII_CMD MII_CMD_READ"
  obtain r5 d5 where w5: "ag71xx_mdio_wait_busy ?d4 = (r5, d5)"
    by (cases "ag71xx_mdio_wait_busy ?d4")
  from assms w1 have ok1: "r1 = Inr ()"
    by (cases r1) (auto simp: ag71xx_mdio_read_def)
  from assms w1 w5 ok1 have ok5: "r5 = Inr ()"
    by (cases r5) (auto simp: ag71xx_mdio_read_def Let_def)
  from wait_busy_frame [of d] w1
  have f1: "mdio_regs d1 = mdio_regs d" "mii_status d1 = mii_status d" by simp_all
  from wait_busy_frame [of ?d4] w5
  have f5: "mdio_regs d5 = mdio_regs ?d4" "mii_status d5 = mii_status ?d4" by simp_all
  from assms w1 w5 ok1 ok5
  have res: "v = mii_status d5 AND 0xffff"
       "d' = ag71xx_mdio_wr d5 AG71XX_REG_MII_CMD MII_CMD_WRITE"
    by (auto simp: ag71xx_mdio_read_def Let_def rr_status)
  show "v = mii_status d AND 0xffff"
    using res(1) f5(2) f1(2) by (simp add: wr_config reg_distinct)
  show "mdio_regs d' =
      (mdio_regs d)(AG71XX_REG_MII_ADDR :=
          push_bit MII_ADDR_SHIFT (addr AND 0xff) OR (reg AND 0xff),
        AG71XX_REG_MII_CMD := MII_CMD_WRITE)"
    using res(2) f5(1) f1(1) by (auto simp: wr_config reg_distinct fun_eq_iff)
qed

text \<open>
  C6. For every device address and register address, when \<open>ag71xx_mdio_read\<close>
  succeeds, \<open>ADDR\<close> holds \<open>((addr & 0xff) << 8) | (reg & 0xff)\<close>, the value returned is
  the \<open>STATUS\<close> word masked to its low 16 bits, and \<open>CMD\<close> holds \<open>MII_CMD_WRITE\<close>.
\<close>

theorem mdio_read_success:
  "ag71xx_mdio_read d addr reg = (Inr v, d') \<Longrightarrow>
     mdio_regs d' AG71XX_REG_MII_ADDR =
       push_bit MII_ADDR_SHIFT (addr AND 0xff) OR (reg AND 0xff) \<and>
     v = mii_status d AND 0xffff \<and>
     mdio_regs d' AG71XX_REG_MII_CMD = MII_CMD_WRITE"
  using mdio_read_success_regs [of d addr reg v d'] by (simp add: reg_distinct)

lemma mdio_read_idle_bus:
  "ind_seq d (ind_reads d) = 0 \<Longrightarrow> ind_seq d (Suc (ind_reads d)) = 0 \<Longrightarrow>
   ag71xx_mdio_read d addr reg =
     (Inr (mii_status d AND 0xffff),
      d\<lparr>mdio_regs := (mdio_regs d)(AG71XX_REG_MII_ADDR :=
            push_bit MII_ADDR_SHIFT (addr AND 0xff) OR (reg AND 0xff),
          AG71XX_REG_MII_CMD := MII_CMD_WRITE),
        ind_reads := ind_reads d + 2\<rparr>)"
proof -
  assume a: "ind_seq d (ind_reads d) = 0" and b: "ind_seq d (Suc (ind_reads d)) = 0"
  define packed where "packed = push_bit MII_ADDR_SHIFT (addr AND 0xff) OR (reg AND 0xff)"
  define d1 where "d1 = d\<lparr>ind_reads := Suc (ind_reads d)\<rparr>"
  define d4 where "d4 = d1\<lparr>mdio_regs := (mdio_regs d)(AG71XX_REG_MII_ADDR := packed,
      AG71XX_REG_MII_CMD := MII_CMD_READ)\<rparr>"
  define d5 where "d5 = d4\<lparr>ind_reads := Suc (Suc (ind_reads d))\<rparr>"
  have k: "0 < AG71XX_MDIO_RETRY" by (simp add: AG71XX_MDIO_RETRY_def)
  have w1: "ag71xx_mdio_wait_busy d = (Inr (), d1)"
    using wait_busy_idle [of 0 d] a k by (simp add: d1_def)
  have e4: "ag71xx_mdio_wr (ag71xx_mdio_wr (ag71xx_mdio_wr d1 AG71XX_REG_MII_CMD MII_CMD_WRITE)
      AG71XX_REG_MII_ADDR packed) AG71XX_REG_MII_CMD MII_CMD_READ = d4"
    by (simp add: d4_def d1_def wr_config reg_distinct fun_upd_twist)
  have w5: "ag71xx_mdio_wait_busy d4 = (Inr (), d5)"
    using wait_busy_idle [of 0 d4] b k by (simp add: d4_def d1_def d5_def)
  have "ag71xx_mdio_read d addr reg =
      (Inr (mii_status d5 AND 0xffff), ag71xx_mdio_wr d5 AG71XX_REG_MII_CMD MII_CMD_WRITE)"
    unfolding ag71xx_mdio_read_def packed_def [symmetric]
    by (simp add: w1 e4 w5 Let_def rr_status)
  then show ?thesis
    by (simp add: d5_def d4_def d1_def packed_def wr_config reg_distinct)
qed

text \<open>
  C6 at a concrete input: an idle bus with \<open>STATUS = 0x12345678\<close>, read at device
  address \<open>0x104\<close> and register \<open>0x302\<close>, returns \<open>0x5678\<close> with \<open>ADDR = 0x0402\<close>.
\<close>

theorem mdio_read_success_witness:
  "ag71xx_mdio_read (idle_dev 0x12345678 (ind_values [] 0)) 0x104 0x302 =
     (Inr 0x5678, (idle_dev 0x12345678 (ind_values [] 0))
        \<lparr>mdio_regs := (every_offset 0)(AG71XX_REG_MII_ADDR := 0x0402), ind_reads := 2\<rparr>) \<and>
   mdio_regs ((idle_dev 0x12345678 (ind_values [] 0))
        \<lparr>mdio_regs := (every_offset 0)(AG71XX_REG_MII_ADDR := 0x0402), ind_reads := 2\<rparr>)
      AG71XX_REG_MII_ADDR = push_bit MII_ADDR_SHIFT (0x104 AND 0xff) OR (0x302 AND 0xff) \<and>
   (0x5678 :: u32) = mii_status (idle_dev 0x12345678 (ind_values [] 0)) AND 0xffff \<and>
   mdio_regs ((idle_dev 0x12345678 (ind_values [] 0))
        \<lparr>mdio_regs := (every_offset 0)(AG71XX_REG_MII_ADDR := 0x0402), ind_reads := 2\<rparr>)
      AG71XX_REG_MII_CMD = MII_CMD_WRITE"
proof -
  let ?d = "idle_dev 0x12345678 (ind_values [] 0)"
  let ?d' = "?d\<lparr>mdio_regs := (every_offset 0)(AG71XX_REG_MII_ADDR := 0x0402), ind_reads := 2\<rparr>"
  have run: "ag71xx_mdio_read ?d 0x104 0x302 = (Inr 0x5678, ?d')"
    by (subst mdio_read_idle_bus)
       (auto simp: idle_dev_def ind_values_def every_offset_def mdio_consts fun_eq_iff)
  from run mdio_read_success [OF run] show ?thesis by blast
qed

lemma get_divider_loop_match:
  "k < length (div_table (hw am)) \<Longrightarrow> k \<le> unat (div_table_size (hw am)) \<Longrightarrow> i \<le> k \<Longrightarrow>
   \<forall>j. i \<le> j \<and> j < k \<longrightarrow>
     div_table (hw am) ! j \<noteq> 0 \<and> \<not> ref_clock div div_table (hw am) ! j \<le> mdio_rate am \<Longrightarrow>
   div_table (hw am) ! k \<noteq> 0 \<Longrightarrow> ref_clock div div_table (hw am) ! k \<le> mdio_rate am \<Longrightarrow>
   get_divider_loop am ref_clock i = Inr (div_table (hw am) ! k)"
proof (induction "k - i" arbitrary: i)
  case 0
  then have "i = k" by simp
  with 0 show ?case
    by (subst get_divider_loop.simps) (simp add: div_table_at_def)
next
  case (Suc n)
  then have lt: "i < k" by simp
  with Suc.prems have here: "div_table (hw am) ! i \<noteq> 0"
    "\<not> ref_clock div div_table (hw am) ! i \<le> mdio_rate am" by auto
  have "get_divider_loop am ref_clock (i + 1) = Inr (div_table (hw am) ! k)"
  proof (rule Suc.hyps(1))
    show "n = k - (i + 1)" using Suc.hyps(2) by simp
    show "i + 1 \<le> k" using lt by simp
    show "\<forall>j. i + 1 \<le> j \<and> j < k \<longrightarrow>
        div_table (hw am) ! j \<noteq> 0 \<and> \<not> ref_clock div div_table (hw am) ! j \<le> mdio_rate am"
      using Suc.prems(4) by auto
  qed (use Suc.prems in auto)
  with here lt Suc.prems(1,2) show ?case
    by (subst get_divider_loop.simps) (simp add: div_table_at_def)
qed

lemma get_divider_loop_none:
  "unat (div_table_size (hw am)) = length (div_table (hw am)) \<Longrightarrow>
   i \<le> length (div_table (hw am)) \<Longrightarrow>
   \<forall>j. i \<le> j \<and> j < length (div_table (hw am)) \<longrightarrow>
     div_table (hw am) ! j \<noteq> 0 \<and> \<not> ref_clock div div_table (hw am) ! j \<le> mdio_rate am \<Longrightarrow>
   get_divider_loop am ref_clock i = Inl (OutOfBoundsRead (length (div_table (hw am))))"
proof (induction "length (div_table (hw am)) - i" arbitrary: i)
  case 0
  then have "i = length (div_table (hw am))" by simp
  with 0 show ?case
    by (subst get_divider_loop.simps) (simp add: div_table_at_def)
next
  case (Suc n)
  then have lt: "i < length (div_table (hw am))" by simp
  with Suc.prems have here: "div_table (hw am) ! i \<noteq> 0"
    "\<not> ref_clock div div_table (hw am) ! i \<le> mdio_rate am" by auto
  have "get_divider_loop am ref_clock (i + 1) =
      Inl (OutOfBoundsRead (length (div_table (hw am))))"
  proof (rule Suc.hyps(1))
    show "n = length (div_table (hw am)) - (i + 1)" using Suc.hyps(2) by simp
    show "i + 1 \<le> length (div_table (hw am))" using lt by simp
    show "\<forall>j. i + 1 \<le> j \<and> j < length (div_table (hw am)) \<longrightarrow>
        div_table (hw am) ! j \<noteq> 0 \<and> \<not> ref_clock div div_table (hw am) ! j \<le> mdio_rate am"
      using Suc.prems(3) by auto
  qed (use Suc.prems in auto)
  with here lt Suc.prems(1) show ?case
    by (subst get_divider_loop.simps) (simp add: div_table_at_def)
qed

text \<open>With a running clock and a table entry that qualifies, the first such entry is returned.\<close>

lemma get_divider_first_match:
  "ref_clk am \<noteq> 0 \<Longrightarrow> k < length (div_table (hw am)) \<Longrightarrow>
   k \<le> unat (div_table_size (hw am)) \<Longrightarrow>
   \<forall>j<k. div_table (hw am) ! j \<noteq> 0 \<and> \<not> ref_clk am div div_table (hw am) ! j \<le> mdio_rate am \<Longrightarrow>
   div_table (hw am) ! k \<noteq> 0 \<Longrightarrow> ref_clk am div div_table (hw am) ! k \<le> mdio_rate am \<Longrightarrow>
   ag71xx_mdio_get_divider am = Inr (div_table (hw am) ! k)"
  by (simp add: ag71xx_mdio_get_divider_def Let_def get_divider_loop_match [where k = k])

text \<open>With no qualifying entry the loop leaves the table, for every table.\<close>

lemma get_divider_no_match:
  "ref_clk am \<noteq> 0 \<Longrightarrow> unat (div_table_size (hw am)) = length (div_table (hw am)) \<Longrightarrow>
   \<forall>j<length (div_table (hw am)).
     div_table (hw am) ! j \<noteq> 0 \<and> \<not> ref_clk am div div_table (hw am) ! j \<le> mdio_rate am \<Longrightarrow>
   ag71xx_mdio_get_divider am = Inl (OutOfBoundsRead (length (div_table (hw am))))"
  by (simp add: ag71xx_mdio_get_divider_def Let_def get_divider_loop_none)

lemma get_divider_loop_fallback:
  "i \<le> Suc (unat (div_table_size (hw am))) \<Longrightarrow>
   \<forall>j. i \<le> j \<and> j \<le> unat (div_table_size (hw am)) \<longrightarrow>
     j < length (div_table (hw am)) \<and> div_table (hw am) ! j \<noteq> 0 \<and>
     \<not> ref_clock div div_table (hw am) ! j \<le> mdio_rate am \<Longrightarrow>
   get_divider_loop am ref_clock i =
     div_table_at (hw am) (Suc (unat (div_table_size (hw am))))"
proof (induction "Suc (unat (div_table_size (hw am))) - i" arbitrary: i)
  case 0
  then have "i = Suc (unat (div_table_size (hw am)))" by simp
  then show ?case
    by (subst get_divider_loop.simps) simp
next
  case (Suc n)
  then have le: "i \<le> unat (div_table_size (hw am))" by simp
  with Suc.prems(2) have here: "i < length (div_table (hw am))"
    "div_table (hw am) ! i \<noteq> 0"
    "\<not> ref_clock div div_table (hw am) ! i \<le> mdio_rate am" by auto
  have "get_divider_loop am ref_clock (i + 1) =
      div_table_at (hw am) (Suc (unat (div_table_size (hw am))))"
  proof (rule Suc.hyps(1))
    show "n = Suc (unat (div_table_size (hw am))) - (i + 1)" using Suc.hyps(2) by simp
    show "i + 1 \<le> Suc (unat (div_table_size (hw am)))" using le by simp
    show "\<forall>j. i + 1 \<le> j \<and> j \<le> unat (div_table_size (hw am)) \<longrightarrow>
        j < length (div_table (hw am)) \<and> div_table (hw am) ! j \<noteq> 0 \<and>
        \<not> ref_clock div div_table (hw am) ! j \<le> mdio_rate am"
      using Suc.prems(2) by auto
  qed
  with here le show ?case
    by (subst get_divider_loop.simps) (simp add: div_table_at_def)
qed

text \<open>
  When the loop runs to its end, the entry returned after it is the one at the index
  \<open>div_table_size + 1\<close>, whatever \<open>div_table_size\<close> counts: never an entry the loop
  has scanned.
\<close>

lemma get_divider_fallback_index:
  "ref_clk am \<noteq> 0 \<Longrightarrow>
   \<forall>j\<le>unat (div_table_size (hw am)).
     j < length (div_table (hw am)) \<and> div_table (hw am) ! j \<noteq> 0 \<and>
     \<not> ref_clk am div div_table (hw am) ! j \<le> mdio_rate am \<Longrightarrow>
   ag71xx_mdio_get_divider am =
     div_table_at (hw am) (Suc (unat (div_table_size (hw am))))"
  by (simp add: ag71xx_mdio_get_divider_def Let_def get_divider_loop_fallback)

lemma minus_EINVAL_word: "- EINVAL_number = (0xFFFFFFEA :: u32)"
  by (simp add: EINVAL_number_def)

lemma get_divider_zero_clock:
  "ag71xx_mdio_get_divider (am\<lparr>ref_clk := 0\<rparr>) = Inr 0xFFFFFFEA"
  by (simp add: ag71xx_mdio_get_divider_def minus_EINVAL_word)

lemma reset_returns_zero:
  "ag71xx_mdio_reset am d = Inr (r, d') \<Longrightarrow> r = Inr ()"
  by (auto simp: ag71xx_mdio_reset_def Let_def split: sum.splits)

text \<open>
  C1. With no qualifying entry the divider should be the last entry of the table, with
  no read outside it. For a reference clock of 200 MHz, a target rate of 2.5 MHz and the
  eight-entry table 4, 4, 6, 8, 10, 14, 20, 28, no entry qualifies (200 MHz / 28 is above
  the target), and \<open>ag71xx_mdio_get_divider\<close> reads the table at index 8, past its
  last entry, instead of returning 28.
\<close>

theorem get_divider_reads_past_table:
  "ag71xx_mdio_get_divider
     \<lparr>ref_clk = 200000000, mdio_rate = 2500000,
      hw = \<lparr>div_table = [4, 4, 6, 8, 10, 14, 20, 28], div_table_size = 8\<rparr>\<rparr> =
   Inl (OutOfBoundsRead 8)"
  by (simp add: ag71xx_mdio_get_divider_def get_divider_loop.simps div_table_at_def)

text \<open>
  C4. A reference clock of zero should make the reset fail with an invalid-configuration
  error. \<open>ag71xx_mdio_reset\<close> returns 0 (success) there, after writing the word
  \<open>0xFFFFFFEA\<close>, which is \<open>-EINVAL\<close> as a \<open>u32\<close>, to \<open>CFG\<close> as the divider.
\<close>

theorem reset_zero_clock_returns_success:
  "ag71xx_mdio_reset
     \<lparr>ref_clk = 0, mdio_rate = 2500000,
      hw = \<lparr>div_table = [4, 4, 6, 8, 10, 14, 20, 28], div_table_size = 8\<rparr>\<rparr>
     (idle_dev 0 (ind_values [] 0)) =
   Inr (Inr (), (idle_dev 0 (ind_values [] 0))
     \<lparr>mdio_regs := (every_offset 0)(AG71XX_REG_MII_CFG := 0xFFFFFFEA), elapsed_us := 200\<rparr>)"
  by (simp add: ag71xx_mdio_reset_def ag71xx_mdio_get_divider_def minus_EINVAL_word Let_def
      wr_config reg_distinct udelay_def idle_dev_def)

end
